theory Spec2Isabelle
  imports Complex_Main
begin

section \<open>GaussianModel1D of wayne/models.py\<close>

text \<open>
  The module defines one class, \<^verbatim>\<open>GaussianModel1D\<close>, on top of the
  \<^verbatim>\<open>Gaussian1D\<close> model of an external library. The base class stores three
  numbers (amplitude, mean, stddev); the subclass adds a checked constructor, two derived
  read/write properties (\<^verbatim>\<open>flux\<close>, \<^verbatim>\<open>fwhm\<close>) and \<^verbatim>\<open>integrate\<close>.

  Numbers are modelled as \<^typ>\<open>real\<close>: the arithmetic is the exact one, rounding of
  the machine numbers is not part of the model. The one place where the program leaves
  the real numbers is a division by zero, which is modelled apart. An argument that
  Python defaults to \<^verbatim>\<open>None\<close> is a \<^typ>\<open>real option\<close>.
\<close>

subsection \<open>Errors and arithmetic\<close>

text \<open>
  A message is what \<^verbatim>\<open>"...{}...{}".format(a, b)\<close> builds: the literal text of the
  format string, and at each \<^verbatim>\<open>{}\<close> the argument put there (\<^verbatim>\<open>None\<close> or a
  number). How the language prints a number is not modelled: the argument itself stands
  in the message.
\<close>

datatype piece = Lit string | Arg "real option"

type_synonym message = "piece list"

datatype error = ValueError message | TypeError

text \<open>
  The division \<^verbatim>\<open>/\<close> of the program is the division of the numeric library's
  floating-point numbers (\<^verbatim>\<open>numpy.float64\<close>: the divisors hold the result of
  \<^verbatim>\<open>np.sqrt\<close>). It raises nothing. With a divisor that is not zero the quotient is
  modelled as the exact one. With the divisor zero the library gives \<^verbatim>\<open>inf\<close>,
  \<^verbatim>\<open>-inf\<close> or \<^verbatim>\<open>nan\<close> and a warning: values that are not real numbers, and
  that the model does not tell apart.
\<close>

datatype number = Finite real | NonFinite

definition true_divide :: "real \<Rightarrow> real \<Rightarrow> number" where
  "true_divide x y = (if y = 0 then NonFinite else Finite (x / y))"

subsection \<open>The model state\<close>

text \<open>
  Modelled from the spec: the base class \<^verbatim>\<open>Gaussian1D\<close> of the modelling library,
  which is not in the module. The spec describes it as the storage of three numbers that
  can be read and assigned: amplitude, mean and stddev.
\<close>

record gaussian =
  amplitude :: real
  mean :: real
  stddev :: real

text \<open>
  \<^verbatim>\<open>Gaussian1D.__init__(self, amplitude, mean, stddev)\<close> of the base class stores
  its three arguments.
\<close>

definition Gaussian1D_init :: "real \<Rightarrow> real \<Rightarrow> real \<Rightarrow> gaussian" where
  "Gaussian1D_init a b c = \<lparr>amplitude = a, mean = b, stddev = c\<rparr>"

text \<open>
  The object after its amplitude has been assigned. The amplitude is what a division
  gave, so it need not be a real number; mean and stddev are. With the amplitude
  \<open>Finite a\<close> the object is the \<^typ>\<open>gaussian\<close> of amplitude \<open>a\<close>.
\<close>

record stored =
  stored_amplitude :: number
  stored_mean :: real
  stored_stddev :: real

text \<open>\<^verbatim>\<open>_gauss_StDev_to_FWHM = (2 * np.sqrt(2 * np.log(2)))\<close>\<close>

definition gauss_StDev_to_FWHM :: real where
  "gauss_StDev_to_FWHM = 2 * sqrt (2 * ln 2)"

subsection \<open>The properties\<close>

text \<open>\<^verbatim>\<open>flux = self.amplitude * (self.stddev * np.sqrt(2 * np.pi))\<close>\<close>

definition flux :: "gaussian \<Rightarrow> real" where
  "flux self = amplitude self * (stddev self * sqrt (2 * pi))"

text \<open>
  \<^verbatim>\<open>self.amplitude = flux / (self.stddev * np.sqrt(2 * np.pi))\<close>: one assignment,
  with no check of the divisor. The quotient is assigned whatever it is.
\<close>

definition flux_setter :: "real \<Rightarrow> gaussian \<Rightarrow> error + stored" where
  "flux_setter v self =
     Inr \<lparr>stored_amplitude = true_divide v (stddev self * sqrt (2 * pi)),
          stored_mean = mean self, stored_stddev = stddev self\<rparr>"

text \<open>\<^verbatim>\<open>fwhm = self.stddev * _gauss_StDev_to_FWHM\<close>\<close>

definition fwhm :: "gaussian \<Rightarrow> real" where
  "fwhm self = stddev self * gauss_StDev_to_FWHM"

text \<open>
  \<^verbatim>\<open>self.stddev = fwhm / _gauss_StDev_to_FWHM\<close>. The divisor is the module's
  constant, which is not zero (\<open>true_divide_constant\<close> below): the quotient is the real
  one.
\<close>

definition fwhm_setter :: "real \<Rightarrow> gaussian \<Rightarrow> error + gaussian" where
  "fwhm_setter v self = Inr (self\<lparr>stddev := v / gauss_StDev_to_FWHM\<rparr>)"

subsection \<open>The constructor\<close>

text \<open>
  The keyword arguments of \<^verbatim>\<open>__init__\<close>, and the values they take when the caller
  leaves them out: \<^verbatim>\<open>amplitude=None, mean=0., stddev=None, fwhm=None, flux=None\<close>.
  The further keyword arguments are handed to the base class as they are and are not
  modelled.
\<close>

record init_args =
  arg_amplitude :: "real option"
  arg_mean :: real
  arg_stddev :: "real option"
  arg_fwhm :: "real option"
  arg_flux :: "real option"

definition default_args :: init_args where
  "default_args = \<lparr>arg_amplitude = None, arg_mean = 0, arg_stddev = None,
                     arg_fwhm = None, arg_flux = None\<rparr>"

text \<open>The two messages, as the source builds them.\<close>

definition width_message :: "init_args \<Rightarrow> message" where
  "width_message args =
     [Lit ''You must set either fwhm OR stdev, not both or  neither. got stdev='',
      Arg (arg_stddev args), Lit '' fwhm='', Arg (arg_fwhm args)]"

definition height_message :: "init_args \<Rightarrow> message" where
  "height_message args =
     [Lit ''You must set either amplitude OR flux, not both or neither. got amplitude='',
      Arg (arg_amplitude args), Lit '' flux='', Arg (arg_flux args)]"

text \<open>
  The two assignments after the base class is initialised. The branch that assigns
  \<^verbatim>\<open>None\<close> to a derived property divides \<^verbatim>\<open>None\<close> by a number, a type error
  in Python; the validation makes it unreachable.
\<close>

definition set_width :: "init_args \<Rightarrow> gaussian \<Rightarrow> error + gaussian" where
  "set_width args self =
     (case arg_stddev args of
        Some c \<Rightarrow> Inr (self\<lparr>stddev := c\<rparr>)
      | None \<Rightarrow> (case arg_fwhm args of
                   Some w \<Rightarrow> fwhm_setter w self
                 | None \<Rightarrow> Inl TypeError))"

definition set_height :: "init_args \<Rightarrow> gaussian \<Rightarrow> error + stored" where
  "set_height args self =
     (case arg_amplitude args of
        Some a \<Rightarrow> Inr \<lparr>stored_amplitude = Finite a, stored_mean = mean self,
                        stored_stddev = stddev self\<rparr>
      | None \<Rightarrow> (case arg_flux args of
                   Some f \<Rightarrow> flux_setter f self
                 | None \<Rightarrow> Inl TypeError))"

text \<open>
  \<^verbatim>\<open>GaussianModel1D.__init__\<close>. The result is the constructed model, or the
  exception together with the state the object had when it was raised: \<open>None\<close> while
  the base class has not been initialised, the parameters stored so far afterwards.
\<close>

definition GaussianModel1D_init ::
  "init_args \<Rightarrow> (error \<times> gaussian option) + stored" where
  "GaussianModel1D_init args =
     (if \<not> ((arg_stddev args \<noteq> None) \<noteq> (arg_fwhm args \<noteq> None))
      then Inl (ValueError (width_message args), None)
      else if \<not> ((arg_flux args \<noteq> None) \<noteq> (arg_amplitude args \<noteq> None))
      then Inl (ValueError (height_message args), None)
      else
        let self0 = Gaussian1D_init 1 (arg_mean args) 1 in
        case set_width args self0 of
          Inl e \<Rightarrow> Inl (e, Some self0)
        | Inr self1 \<Rightarrow>
            (case set_height args self1 of
               Inl e \<Rightarrow> Inl (e, Some self1)
             | Inr self2 \<Rightarrow> Inr self2))"

subsection \<open>Integration over bins\<close>

text \<open>
  Modelled from the spec: the circular shift \<^verbatim>\<open>np.roll(a, shift)\<close> of the numeric
  library, on a one-dimensional array: the element at index \<open>i\<close> of the result is the
  element at index \<open>(i - shift) mod n\<close> of \<open>a\<close>.
\<close>

definition roll :: "'a list \<Rightarrow> int \<Rightarrow> 'a list" where
  "roll a shift = rotate (nat ((- shift) mod int (length a))) a"

text \<open>
  \<^verbatim>\<open>integrate\<close>. The normal distribution's cumulative distribution function
  \<^verbatim>\<open>scipy.stats.norm.cdf(x, loc, scale)\<close> is the parameter \<open>norm_cdf\<close>, applied
  to every limit. The method returns its value and leaves the object as it is: the
  second component is the object after the call.
\<close>

definition integrate ::
  "(real \<Rightarrow> real \<Rightarrow> real \<Rightarrow> real) \<Rightarrow> gaussian \<Rightarrow> real list \<Rightarrow> real list \<times> gaussian" where
  "integrate norm_cdf self limits =
     (let cdf = map (\<lambda>x. norm_cdf x (mean self) (stddev self)) limits;
          area = butlast (map2 (-) (roll cdf (- 1)) cdf);
          binned_flux = map (\<lambda>a. a * flux self) area
      in (binned_flux, self))"

subsection \<open>A polynomial below the exponential\<close>

text \<open>
  The first eighteen terms of the exponential series, in Horner form. The polynomial
  serves to bound \<open>ln 2\<close>, and with it the conversion constant, by decimals.
\<close>

definition exp_horner :: "real \<Rightarrow> real" where
  "exp_horner x =
     1 + x * (1 + x / 2 * (1 + x / 3 * (1 + x / 4 * (1 + x / 5 * (1 + x / 6 * (1 + x / 7 *
     (1 + x / 8 * (1 + x / 9 * (1 + x / 10 * (1 + x / 11 * (1 + x / 12 * (1 + x / 13 *
     (1 + x / 14 * (1 + x / 15 * (1 + x / 16 * (1 + x / 17))))))))))))))))"

section \<open>Helper facts\<close>

subsection \<open>Division and the setters\<close>

lemma gauss_StDev_to_FWHM_pos: "0 < gauss_StDev_to_FWHM"
  by (simp add: gauss_StDev_to_FWHM_def)

lemma true_divide_nonzero: "y \<noteq> 0 \<Longrightarrow> true_divide x y = Finite (x / y)"
  by (simp add: true_divide_def)

lemma true_divide_zero: "true_divide x 0 = NonFinite"
  by (simp add: true_divide_def)

text \<open>Dividing by the constant is the real division, as \<open>fwhm_setter\<close> has it.\<close>

lemma true_divide_constant:
  "true_divide v gauss_StDev_to_FWHM = Finite (v / gauss_StDev_to_FWHM)"
  using gauss_StDev_to_FWHM_pos by (simp add: true_divide_def)

text \<open>The divisor of the \<^verbatim>\<open>flux\<close> write is zero exactly when \<^verbatim>\<open>stddev\<close> is.\<close>

lemma flux_setter_eq:
  "flux_setter v self =
     Inr \<lparr>stored_amplitude =
            (if stddev self = 0 then NonFinite else Finite (v / (stddev self * sqrt (2 * pi)))),
          stored_mean = mean self, stored_stddev = stddev self\<rparr>"
  by (simp add: flux_setter_def true_divide_def)

subsection \<open>The branches of the constructor\<close>

lemma init_width_error:
  "(arg_stddev args = None) = (arg_fwhm args = None) \<Longrightarrow>
   GaussianModel1D_init args = Inl (ValueError (width_message args), None)"
  by (auto simp: GaussianModel1D_init_def)

lemma init_height_error:
  "(arg_stddev args = None) \<noteq> (arg_fwhm args = None) \<Longrightarrow>
   (arg_amplitude args = None) = (arg_flux args = None) \<Longrightarrow>
   GaussianModel1D_init args = Inl (ValueError (height_message args), None)"
  by (auto simp: GaussianModel1D_init_def)

lemma init_valid_no_ValueError:
  "(arg_stddev args = None) \<noteq> (arg_fwhm args = None) \<Longrightarrow>
   (arg_amplitude args = None) \<noteq> (arg_flux args = None) \<Longrightarrow>
   GaussianModel1D_init args \<noteq> Inl (ValueError msg, st)"
  by (auto simp: GaussianModel1D_init_def Let_def set_width_def set_height_def
        fwhm_setter_def flux_setter_def split: option.splits sum.splits if_splits)

lemma set_width_eq:
  assumes "arg_stddev args = Some c \<and> arg_fwhm args = None \<or>
           arg_stddev args = None \<and> arg_fwhm args = Some w \<and> c = w / (2 * sqrt (2 * ln 2))"
  shows "set_width args self = Inr (self\<lparr>stddev := c\<rparr>)"
  using assms by (auto simp: set_width_def fwhm_setter_def gauss_StDev_to_FWHM_def)

subsection \<open>The conversion constant as a decimal\<close>

lemma exp_horner_sum: "(\<Sum>m<18. x ^ m / fact m) = exp_horner x"
  unfolding exp_horner_def
  by (simp add: eval_nat_numeral field_simps)

lemma exp_horner_le_exp: "exp_horner x \<le> exp x"
proof -
  obtain t where "exp x = (\<Sum>m<18. x ^ m / fact m) + exp t / fact 18 * x ^ 18"
    using Maclaurin_exp_le [of x 18] by blast
  moreover have "0 \<le> exp t / fact 18 * x ^ 18"
    by simp
  ultimately show ?thesis
    by (simp add: exp_horner_sum)
qed

lemma ln_2_lower: "49180508 / 70952475 \<le> ln (2::real)"
proof -
  let ?l = "49180508 / 70952475 :: real"
  have "1 / 2 \<le> exp_horner (- ?l)"
    unfolding exp_horner_def by simp
  also have "\<dots> \<le> exp (- ?l)"
    by (rule exp_horner_le_exp)
  finally have "1 / 2 \<le> 1 / exp ?l"
    by (simp add: exp_minus inverse_eq_divide)
  then have "exp ?l \<le> exp (ln 2)"
    by (simp add: field_simps)
  then show ?thesis
    by (simp only: exp_le_cancel_iff)
qed

lemma ln_2_upper: "ln (2::real) \<le> 111975815 / 161546953"
proof -
  let ?u = "111975815 / 161546953 :: real"
  have "2 \<le> exp_horner ?u"
    unfolding exp_horner_def by simp
  also have "\<dots> \<le> exp ?u"
    by (rule exp_horner_le_exp)
  finally have "exp (ln 2) \<le> exp ?u"
    by simp
  then show ?thesis
    by (simp only: exp_le_cancel_iff)
qed

lemma gauss_StDev_to_FWHM_decimal:
  "\<bar>gauss_StDev_to_FWHM - 2.3548200450309493\<bar> \<le> 1 / 10 ^ 16"
proof -
  let ?a = "2.3548200450309493 - 1 / 10 ^ 16 :: real"
  let ?b = "2.3548200450309493 + 1 / 10 ^ 16 :: real"
  have "(?a / 2)\<^sup>2 \<le> 2 * (49180508 / 70952475)"
    by (simp add: power2_eq_square)
  also have "\<dots> \<le> 2 * ln 2"
    using ln_2_lower by simp
  finally have "?a / 2 \<le> sqrt (2 * ln 2)"
    by (rule real_le_rsqrt)
  then have lower: "?a \<le> gauss_StDev_to_FWHM"
    by (simp add: gauss_StDev_to_FWHM_def)
  have "2 * ln 2 \<le> 2 * (111975815 / 161546953 :: real)"
    using ln_2_upper by simp
  also have "\<dots> \<le> (?b / 2)\<^sup>2"
    by (simp add: power2_eq_square)
  finally have "sqrt (2 * ln 2) \<le> ?b / 2"
    by (intro real_le_lsqrt) simp_all
  then have upper: "gauss_StDev_to_FWHM \<le> ?b"
    by (simp add: gauss_StDev_to_FWHM_def)
  from lower upper show ?thesis
    by linarith
qed

subsection \<open>The circular shift\<close>

text \<open>\<^verbatim>\<open>np.roll(cdf, -1)\<close> moves the first element to the end.\<close>

lemma roll_minus_one: "roll a (- 1) = rotate1 a"
proof (cases "length a \<le> 1")
  case True
  then have "a = [] \<or> (\<exists>x. a = [x])"
    by (cases a) auto
  then show ?thesis by (auto simp: roll_def)
next
  case False
  then have "(1::int) mod int (length a) = 1" by simp
  then show ?thesis by (simp add: roll_def)
qed

text \<open>
  The difference of the shifted array and the array holds the differences of neighbours
  and, in its last place, the difference between the first element and the last.
\<close>

lemma rotate1_difference:
  fixes xs :: "real list"
  assumes "xs \<noteq> []"
  shows "map2 (-) (rotate1 xs) xs =
         map (\<lambda>i. xs ! Suc i - xs ! i) [0..<length xs - 1] @ [xs ! 0 - xs ! (length xs - 1)]"
proof (rule nth_equalityI)
  show "length (map2 (-) (rotate1 xs) xs) =
        length (map (\<lambda>i. xs ! Suc i - xs ! i) [0..<length xs - 1] @ [xs ! 0 - xs ! (length xs - 1)])"
    using assms by (cases xs) simp_all
next
  fix i
  assume "i < length (map2 (-) (rotate1 xs) xs)"
  then have i: "i < length xs" by simp
  show "map2 (-) (rotate1 xs) xs ! i =
        (map (\<lambda>i. xs ! Suc i - xs ! i) [0..<length xs - 1] @ [xs ! 0 - xs ! (length xs - 1)]) ! i"
  proof (cases "i < length xs - 1")
    case True
    then have "Suc i mod length xs = Suc i" by simp
    with i True show ?thesis
      by (simp add: nth_rotate1 nth_append)
  next
    case False
    with i have "i = length xs - 1" by simp
    moreover from this i have "Suc i = length xs" by simp
    then have "Suc i mod length xs = 0" by simp
    ultimately show ?thesis
      using i by (simp add: nth_rotate1 nth_append)
  qed
qed

lemma rolled_difference:
  fixes cdf :: "real list"
  assumes "cdf \<noteq> []"
  shows "map2 (-) (roll cdf (- 1)) cdf =
         map (\<lambda>i. cdf ! Suc i - cdf ! i) [0..<length cdf - 1] @ [cdf ! 0 - cdf ! (length cdf - 1)]"
  unfolding roll_minus_one using assms by (rule rotate1_difference)

text \<open>\<^verbatim>\<open>[:-1]\<close> drops that last place.\<close>

lemma butlast_rotate1_difference:
  fixes xs :: "real list"
  shows "butlast (map2 (-) (rotate1 xs) xs) = map (\<lambda>i. xs ! Suc i - xs ! i) [0..<length xs - 1]"
proof (rule nth_equalityI)
  show "length (butlast (map2 (-) (rotate1 xs) xs)) =
        length (map (\<lambda>i. xs ! Suc i - xs ! i) [0..<length xs - 1])"
    by simp
next
  fix i
  assume "i < length (butlast (map2 (-) (rotate1 xs) xs))"
  then have i: "i < length xs - 1" by simp
  then have "Suc i mod length xs = Suc i" by simp
  with i have "rotate1 xs ! i = xs ! Suc i"
    by (simp add: nth_rotate1)
  with i show "butlast (map2 (-) (rotate1 xs) xs) ! i =
        map (\<lambda>i. xs ! Suc i - xs ! i) [0..<length xs - 1] ! i"
    by (simp add: nth_butlast)
qed

lemma integrate_eq:
  "fst (integrate norm_cdf self limits) =
     map (\<lambda>i. (norm_cdf (limits ! Suc i) (mean self) (stddev self) -
                 norm_cdf (limits ! i) (mean self) (stddev self)) * flux self)
       [0..<length limits - 1]"
  by (simp add: integrate_def Let_def roll_minus_one butlast_rotate1_difference map_butlast o_def)

section \<open>The constructor\<close>

text \<open>
  Claim C1. The constructor raises its validation error (\<open>ValueError\<close>) exactly when
  \<^verbatim>\<open>stddev\<close> and \<^verbatim>\<open>fwhm\<close> are both given or both left out, or
  \<^verbatim>\<open>amplitude\<close> and \<^verbatim>\<open>flux\<close> are both given or both left out. When the width
  pair is at fault the message holds the given \<^verbatim>\<open>stddev\<close> and \<^verbatim>\<open>fwhm\<close>; when
  only the height pair is at fault it holds the given \<^verbatim>\<open>amplitude\<close> and
  \<^verbatim>\<open>flux\<close>.
\<close>

theorem init_validation_error_iff:
  "((\<exists>msg st. GaussianModel1D_init args = Inl (ValueError msg, st)) \<longleftrightarrow>
      (arg_stddev args \<noteq> None \<and> arg_fwhm args \<noteq> None) \<or>
      (arg_stddev args = None \<and> arg_fwhm args = None) \<or>
      (arg_amplitude args \<noteq> None \<and> arg_flux args \<noteq> None) \<or>
      (arg_amplitude args = None \<and> arg_flux args = None)) \<and>
   ((arg_stddev args = None) = (arg_fwhm args = None) \<longrightarrow>
      (\<exists>msg. GaussianModel1D_init args = Inl (ValueError msg, None) \<and>
         Arg (arg_stddev args) \<in> set msg \<and> Arg (arg_fwhm args) \<in> set msg)) \<and>
   ((arg_stddev args = None) \<noteq> (arg_fwhm args = None) \<and>
    (arg_amplitude args = None) = (arg_flux args = None) \<longrightarrow>
      (\<exists>msg. GaussianModel1D_init args = Inl (ValueError msg, None) \<and>
         Arg (arg_amplitude args) \<in> set msg \<and> Arg (arg_flux args) \<in> set msg))"
proof (intro conjI impI)
  show "(\<exists>msg st. GaussianModel1D_init args = Inl (ValueError msg, st)) \<longleftrightarrow>
      (arg_stddev args \<noteq> None \<and> arg_fwhm args \<noteq> None) \<or>
      (arg_stddev args = None \<and> arg_fwhm args = None) \<or>
      (arg_amplitude args \<noteq> None \<and> arg_flux args \<noteq> None) \<or>
      (arg_amplitude args = None \<and> arg_flux args = None)"
  proof (cases "(arg_stddev args = None) = (arg_fwhm args = None)")
    case True
    from init_width_error [OF True] True show ?thesis by auto
  next
    case w: False
    show ?thesis
    proof (cases "(arg_amplitude args = None) = (arg_flux args = None)")
      case True
      from init_height_error [OF w True] True show ?thesis by auto
    next
      case False
      from init_valid_no_ValueError [OF w False] w False show ?thesis by auto
    qed
  qed
next
  assume "(arg_stddev args = None) = (arg_fwhm args = None)"
  from init_width_error [OF this]
  show "\<exists>msg. GaussianModel1D_init args = Inl (ValueError msg, None) \<and>
         Arg (arg_stddev args) \<in> set msg \<and> Arg (arg_fwhm args) \<in> set msg"
    by (simp add: width_message_def)
next
  assume "(arg_stddev args = None) \<noteq> (arg_fwhm args = None) \<and>
    (arg_amplitude args = None) = (arg_flux args = None)"
  then have "GaussianModel1D_init args = Inl (ValueError (height_message args), None)"
    by (simp add: init_height_error)
  then show "\<exists>msg. GaussianModel1D_init args = Inl (ValueError msg, None) \<and>
         Arg (arg_amplitude args) \<in> set msg \<and> Arg (arg_flux args) \<in> set msg"
    by (simp add: height_message_def)
qed

text \<open>
  The theorem at three inputs: no argument given, only \<^verbatim>\<open>stddev\<close> given, and
  \<^verbatim>\<open>stddev\<close> with \<^verbatim>\<open>amplitude\<close>, which raises no validation error.
\<close>

theorem init_validation_error_iff_witness:
  "(\<exists>msg. GaussianModel1D_init default_args = Inl (ValueError msg, None) \<and>
      Arg (arg_stddev default_args) \<in> set msg \<and> Arg (arg_fwhm default_args) \<in> set msg) \<and>
   (\<exists>msg. GaussianModel1D_init (default_args\<lparr>arg_stddev := Some 1\<rparr>) = Inl (ValueError msg, None) \<and>
      Arg None \<in> set msg) \<and>
   \<not> (\<exists>msg st. GaussianModel1D_init (default_args\<lparr>arg_stddev := Some 1, arg_amplitude := Some 1\<rparr>) =
          Inl (ValueError msg, st))"
  using init_validation_error_iff [of default_args]
    init_validation_error_iff [of "default_args\<lparr>arg_stddev := Some 1\<rparr>"]
    init_validation_error_iff [of "default_args\<lparr>arg_stddev := Some 1, arg_amplitude := Some 1\<rparr>"]
  by (simp add: default_args_def)

text \<open>
  Claim C10. The width pair is checked first: when it is at fault the error is the width
  error, whatever the height pair is. A validation error leaves the object without
  state: the base class has not been initialised when it is raised.
\<close>

theorem init_width_checked_first:
  "((arg_stddev args = None) = (arg_fwhm args = None) \<longrightarrow>
      GaussianModel1D_init args = Inl (ValueError (width_message args), None)) \<and>
   ((arg_stddev args = None) = (arg_fwhm args = None) \<or>
    (arg_amplitude args = None) = (arg_flux args = None) \<longrightarrow>
      (\<exists>msg. GaussianModel1D_init args = Inl (ValueError msg, None)))"
  using init_width_error [of args] init_height_error [of args]
  by (cases "(arg_stddev args = None) = (arg_fwhm args = None)") auto

text \<open>The theorem with all four arguments left out, and with all four given.\<close>

theorem init_width_checked_first_witness:
  "GaussianModel1D_init default_args = Inl (ValueError (width_message default_args), None) \<and>
   GaussianModel1D_init (default_args\<lparr>arg_amplitude := Some 1, arg_stddev := Some 1,
       arg_fwhm := Some 1, arg_flux := Some 1\<rparr>) =
     Inl (ValueError [Lit ''You must set either fwhm OR stdev, not both or  neither. got stdev='',
            Arg (Some 1), Lit '' fwhm='', Arg (Some 1)], None)"
  using init_width_checked_first [of default_args]
    init_width_checked_first [of "default_args\<lparr>arg_amplitude := Some 1, arg_stddev := Some 1,
       arg_fwhm := Some 1, arg_flux := Some 1\<rparr>"]
  by (simp add: default_args_def width_message_def)

text \<open>
  Claim C2. On every input that passes the validation the constructor returns an object,
  with the width resolved first: the stored \<^verbatim>\<open>stddev\<close> is the given one, or the
  given \<^verbatim>\<open>fwhm\<close> divided by \<open>2 * sqrt (2 * ln 2)\<close>. The height follows: the stored
  \<^verbatim>\<open>amplitude\<close> is the given one, or the quotient of the given \<^verbatim>\<open>flux\<close> by
  \<open>stddev * sqrt (2 * pi)\<close> with the \<^verbatim>\<open>stddev\<close> just stored: the real quotient
  when that \<^verbatim>\<open>stddev\<close> is not zero, the library's quotient by zero when it is. The
  stored \<^verbatim>\<open>mean\<close> is the given one.
\<close>

theorem init_resolves_width_then_height:
  assumes "arg_stddev args = Some c \<and> arg_fwhm args = None \<or>
           arg_stddev args = None \<and> arg_fwhm args = Some w \<and> c = w / (2 * sqrt (2 * ln 2))"
  shows "(arg_amplitude args = Some a \<and> arg_flux args = None \<longrightarrow>
            GaussianModel1D_init args =
              Inr \<lparr>stored_amplitude = Finite a, stored_mean = arg_mean args, stored_stddev = c\<rparr>) \<and>
         (arg_amplitude args = None \<and> arg_flux args = Some f \<longrightarrow>
            GaussianModel1D_init args =
              Inr \<lparr>stored_amplitude = true_divide f (c * sqrt (2 * pi)),
                   stored_mean = arg_mean args, stored_stddev = c\<rparr>) \<and>
         (arg_amplitude args = None \<and> arg_flux args = Some f \<and> c \<noteq> 0 \<longrightarrow>
            GaussianModel1D_init args =
              Inr \<lparr>stored_amplitude = Finite (f / (c * sqrt (2 * pi))),
                   stored_mean = arg_mean args, stored_stddev = c\<rparr>)"
proof -
  let ?self0 = "Gaussian1D_init 1 (arg_mean args) 1"
  have valid: "(arg_stddev args = None) \<noteq> (arg_fwhm args = None)"
    using assms by auto
  have step2: "set_width args ?self0 = Inr (?self0\<lparr>stddev := c\<rparr>)"
    using assms by (rule set_width_eq)
  have flux_given: "GaussianModel1D_init args =
              Inr \<lparr>stored_amplitude = true_divide f (c * sqrt (2 * pi)),
                   stored_mean = arg_mean args, stored_stddev = c\<rparr>"
    if h: "arg_amplitude args = None \<and> arg_flux args = Some f"
  proof -
    from h have "set_height args (?self0\<lparr>stddev := c\<rparr>) = flux_setter f (?self0\<lparr>stddev := c\<rparr>)"
      by (simp add: set_height_def)
    with valid h step2 show ?thesis
      by (simp add: GaussianModel1D_init_def flux_setter_def Gaussian1D_init_def)
  qed
  show ?thesis
  proof (intro conjI impI)
    assume h: "arg_amplitude args = Some a \<and> arg_flux args = None"
    then have "set_height args (?self0\<lparr>stddev := c\<rparr>) =
        Inr \<lparr>stored_amplitude = Finite a, stored_mean = arg_mean args, stored_stddev = c\<rparr>"
      by (simp add: set_height_def Gaussian1D_init_def)
    with valid h step2 show "GaussianModel1D_init args =
        Inr \<lparr>stored_amplitude = Finite a, stored_mean = arg_mean args, stored_stddev = c\<rparr>"
      by (simp add: GaussianModel1D_init_def)
  next
    assume "arg_amplitude args = None \<and> arg_flux args = Some f"
    then show "GaussianModel1D_init args =
              Inr \<lparr>stored_amplitude = true_divide f (c * sqrt (2 * pi)),
                   stored_mean = arg_mean args, stored_stddev = c\<rparr>"
      by (rule flux_given)
  next
    assume h: "arg_amplitude args = None \<and> arg_flux args = Some f \<and> c \<noteq> 0"
    then have "true_divide f (c * sqrt (2 * pi)) = Finite (f / (c * sqrt (2 * pi)))"
      by (simp add: true_divide_nonzero)
    with h flux_given show "GaussianModel1D_init args =
              Inr \<lparr>stored_amplitude = Finite (f / (c * sqrt (2 * pi))),
                   stored_mean = arg_mean args, stored_stddev = c\<rparr>"
      by simp
  qed
qed

text \<open>
  The theorem at \<^verbatim>\<open>amplitude=2, mean=5, fwhm=4\<close>, at \<^verbatim>\<open>stddev=2\<close> with a flux
  and the mean left out, which is then 0, and at \<^verbatim>\<open>stddev=0\<close> with a flux, where
  the amplitude is the quotient by zero.
\<close>

theorem init_resolves_width_then_height_witness:
  "GaussianModel1D_init (default_args\<lparr>arg_amplitude := Some 2, arg_mean := 5, arg_fwhm := Some 4\<rparr>) =
     Inr \<lparr>stored_amplitude = Finite 2, stored_mean = 5,
          stored_stddev = 4 / (2 * sqrt (2 * ln 2))\<rparr> \<and>
   GaussianModel1D_init (default_args\<lparr>arg_stddev := Some 2, arg_flux := Some (6 * sqrt (2 * pi))\<rparr>) =
     Inr \<lparr>stored_amplitude = Finite 3, stored_mean = 0, stored_stddev = 2\<rparr> \<and>
   GaussianModel1D_init (default_args\<lparr>arg_stddev := Some 0, arg_flux := Some 1\<rparr>) =
     Inr \<lparr>stored_amplitude = NonFinite, stored_mean = 0, stored_stddev = 0\<rparr>"
  using init_resolves_width_then_height [of "default_args\<lparr>arg_amplitude := Some 2, arg_mean := 5, arg_fwhm := Some 4\<rparr>"
      "4 / (2 * sqrt (2 * ln 2))" 4 2 0]
    init_resolves_width_then_height [of "default_args\<lparr>arg_stddev := Some 2, arg_flux := Some (6 * sqrt (2 * pi))\<rparr>"
      2 0 0 "6 * sqrt (2 * pi)"]
    init_resolves_width_then_height [of "default_args\<lparr>arg_stddev := Some 0, arg_flux := Some 1\<rparr>"
      0 0 0 1]
  by (simp add: default_args_def true_divide_def)

section \<open>The flux property\<close>

text \<open>
  Claim C5. Reading \<^verbatim>\<open>flux\<close> gives \<open>amplitude * stddev * sqrt (2 * pi)\<close>. The read
  is a product of stored numbers and has no failing branch: with \<^verbatim>\<open>stddev\<close> zero
  it gives 0, with \<^verbatim>\<open>stddev\<close> negative the flux of the positive width with the sign
  changed.
\<close>

theorem flux_read:
  "flux self = amplitude self * stddev self * sqrt (2 * pi) \<and>
   (stddev self = 0 \<longrightarrow> flux self = 0) \<and>
   (stddev self < 0 \<longrightarrow> flux self = - (amplitude self * \<bar>stddev self\<bar> * sqrt (2 * pi)))"
  by (simp add: flux_def)

text \<open>The theorem at widths 0, -3 and 3.\<close>

theorem flux_read_witness:
  "flux \<lparr>amplitude = 2, mean = 0, stddev = 0\<rparr> = 0 \<and>
   flux \<lparr>amplitude = 2, mean = 0, stddev = - 3\<rparr> = - (2 * 3 * sqrt (2 * pi)) \<and>
   flux \<lparr>amplitude = 2, mean = 0, stddev = 3\<rparr> = 2 * 3 * sqrt (2 * pi)"
  using flux_read [of "\<lparr>amplitude = 2, mean = 0, stddev = 0\<rparr>"]
    flux_read [of "\<lparr>amplitude = 2, mean = 0, stddev = - 3\<rparr>"]
    flux_read [of "\<lparr>amplitude = 2, mean = 0, stddev = 3\<rparr>"]
  by simp

text \<open>
  Claim C8, as the program has it. Writing \<^verbatim>\<open>flux\<close> assigns
  \<open>flux / (stddev * sqrt (2 * pi))\<close> as the amplitude and leaves mean and stddev. The
  write never fails: when \<^verbatim>\<open>stddev\<close> is 0 at the time of the write, the division
  by zero raises nothing, and its result, which is no real number, is assigned.
\<close>

theorem flux_write:
  "(stddev self \<noteq> 0 \<longrightarrow>
      flux_setter v self =
        Inr \<lparr>stored_amplitude = Finite (v / (stddev self * sqrt (2 * pi))),
             stored_mean = mean self, stored_stddev = stddev self\<rparr>) \<and>
   (stddev self = 0 \<longrightarrow>
      flux_setter v self =
        Inr \<lparr>stored_amplitude = NonFinite, stored_mean = mean self, stored_stddev = 0\<rparr>)"
  by (simp add: flux_setter_eq)

text \<open>The theorem at width 2, and at width 0.\<close>

theorem flux_write_witness:
  "flux_setter (6 * sqrt (2 * pi)) \<lparr>amplitude = 1, mean = 0, stddev = 2\<rparr> =
     Inr \<lparr>stored_amplitude = Finite 3, stored_mean = 0, stored_stddev = 2\<rparr> \<and>
   flux_setter 0 \<lparr>amplitude = 1, mean = 4, stddev = 0\<rparr> =
     Inr \<lparr>stored_amplitude = NonFinite, stored_mean = 4, stored_stddev = 0\<rparr>"
  using flux_write [of "\<lparr>amplitude = 1, mean = 0, stddev = 2\<rparr>" "6 * sqrt (2 * pi)"]
    flux_write [of "\<lparr>amplitude = 1, mean = 4, stddev = 0\<rparr>" 0]
  by simp

text \<open>
  The claim as the spec words it, that the write fails whenever \<^verbatim>\<open>stddev\<close> is 0,
  does not hold: with \<^verbatim>\<open>stddev\<close> 0 the write of the flux 1 returns.
\<close>

theorem flux_write_zero_stddev_returns:
  "flux_setter 1 \<lparr>amplitude = 1, mean = 0, stddev = 0\<rparr> =
     Inr \<lparr>stored_amplitude = NonFinite, stored_mean = 0, stored_stddev = 0\<rparr>"
  by (simp add: flux_setter_def true_divide_def)

text \<open>
  Claim C7. With a positive \<^verbatim>\<open>stddev\<close>, reading \<^verbatim>\<open>flux\<close> and writing the value
  back restores the amplitude. The write is watched on any object of the same
  \<^verbatim>\<open>stddev\<close>, whatever its amplitude was before: afterwards its amplitude is the
  one the flux was read from, its mean and stddev are its own. On the object itself
  the write gives the object back.
\<close>

theorem flux_round_trip:
  assumes "0 < stddev self" and "stddev other = stddev self"
  shows "flux_setter (flux self) other =
           Inr \<lparr>stored_amplitude = Finite (amplitude self), stored_mean = mean other,
                stored_stddev = stddev other\<rparr> \<and>
         flux_setter (flux self) self =
           Inr \<lparr>stored_amplitude = Finite (amplitude self), stored_mean = mean self,
                stored_stddev = stddev self\<rparr>"
  using assms by (simp add: flux_setter_eq flux_def)

text \<open>
  The theorem with the flux read at amplitude 2 and width 3, written to an object of
  amplitude 7, mean 5 and width 3.
\<close>

theorem flux_round_trip_witness:
  "flux_setter (flux \<lparr>amplitude = 2, mean = 0, stddev = 3\<rparr>) \<lparr>amplitude = 7, mean = 5, stddev = 3\<rparr> =
     Inr \<lparr>stored_amplitude = Finite 2, stored_mean = 5, stored_stddev = 3\<rparr>"
  using flux_round_trip [of "\<lparr>amplitude = 2, mean = 0, stddev = 3\<rparr>" "\<lparr>amplitude = 7, mean = 5, stddev = 3\<rparr>"]
  by simp

section \<open>The fwhm property\<close>

text \<open>
  Claim C6. With a positive \<^verbatim>\<open>stddev\<close>, reading \<^verbatim>\<open>fwhm\<close> gives
  \<open>stddev * (2 * sqrt (2 * ln 2))\<close>, which is \<open>stddev * 2.3548200450309493\<close> up to
  \<open>stddev / 10 ^ 16\<close>. Writing that value restores the \<^verbatim>\<open>stddev\<close>: written to any
  object, whatever its stddev was before, it leaves the stddev the value was read
  from and nothing else changed. The other way round, every write succeeds and the
  value written is the value read afterwards: getter and setter are inverse to each
  other.
\<close>

theorem fwhm_round_trip:
  assumes "0 < stddev self"
  shows "fwhm self = stddev self * (2 * sqrt (2 * ln 2)) \<and>
         \<bar>fwhm self - stddev self * 2.3548200450309493\<bar> \<le> stddev self / 10 ^ 16 \<and>
         fwhm_setter (fwhm self) other = Inr (other\<lparr>stddev := stddev self\<rparr>) \<and>
         fwhm_setter (fwhm self) self = Inr self \<and>
         (\<exists>s. fwhm_setter v other = Inr s \<and> fwhm s = v \<and>
              amplitude s = amplitude other \<and> mean s = mean other)"
proof (intro conjI)
  show "fwhm self = stddev self * (2 * sqrt (2 * ln 2))"
    by (simp add: fwhm_def gauss_StDev_to_FWHM_def)
next
  have "fwhm self - stddev self * 2.3548200450309493 =
        stddev self * (gauss_StDev_to_FWHM - 2.3548200450309493)"
    by (simp add: fwhm_def algebra_simps)
  then have "\<bar>fwhm self - stddev self * 2.3548200450309493\<bar> =
        stddev self * \<bar>gauss_StDev_to_FWHM - 2.3548200450309493\<bar>"
    using assms by (simp only: abs_mult abs_of_pos)
  also have "\<dots> \<le> stddev self * (1 / 10 ^ 16)"
    using assms gauss_StDev_to_FWHM_decimal by (intro mult_left_mono) simp_all
  finally show "\<bar>fwhm self - stddev self * 2.3548200450309493\<bar> \<le> stddev self / 10 ^ 16"
    by simp
next
  have restored: "fwhm self / gauss_StDev_to_FWHM = stddev self"
    using gauss_StDev_to_FWHM_pos by (simp add: fwhm_def)
  then show "fwhm_setter (fwhm self) other = Inr (other\<lparr>stddev := stddev self\<rparr>)"
    by (simp add: fwhm_setter_def)
  from restored show "fwhm_setter (fwhm self) self = Inr self"
    by (simp add: fwhm_setter_def)
next
  have "fwhm (other\<lparr>stddev := v / gauss_StDev_to_FWHM\<rparr>) = v"
    using gauss_StDev_to_FWHM_pos by (simp add: fwhm_def)
  then show "\<exists>s. fwhm_setter v other = Inr s \<and> fwhm s = v \<and>
              amplitude s = amplitude other \<and> mean s = mean other"
    by (simp add: fwhm_setter_def)
qed

text \<open>
  The theorem with the fwhm read at width 3 and written to an object of amplitude 2,
  mean 5 and width 7, and with the value 1 written to that object.
\<close>

theorem fwhm_round_trip_witness:
  "fwhm \<lparr>amplitude = 1, mean = 0, stddev = 3\<rparr> = 3 * (2 * sqrt (2 * ln 2)) \<and>
   fwhm_setter (3 * (2 * sqrt (2 * ln 2))) \<lparr>amplitude = 2, mean = 5, stddev = 7\<rparr> =
     Inr \<lparr>amplitude = 2, mean = 5, stddev = 3\<rparr> \<and>
   (\<exists>s. fwhm_setter 1 \<lparr>amplitude = 2, mean = 5, stddev = 7\<rparr> = Inr s \<and> fwhm s = 1)"
  using fwhm_round_trip [of "\<lparr>amplitude = 1, mean = 0, stddev = 3\<rparr>"
      "\<lparr>amplitude = 2, mean = 5, stddev = 7\<rparr>" 1]
  by auto

section \<open>Integration\<close>

text \<open>
  Claim C3. For limits \<open>x\<^sub>0, \<dots>, x\<^sub>n\<^sub>-\<^sub>1\<close> with \<open>n \<ge> 2\<close>, \<^verbatim>\<open>integrate\<close> returns, in
  the order of the limits, the \<open>n - 1\<close> values
  \<open>(CDF x\<^sub>i\<^sub>+\<^sub>1 - CDF x\<^sub>i) * (amplitude * stddev * sqrt (2 * pi))\<close>, the CDF taken at the
  model's mean and stddev. These are all its values: the difference between the first
  limit and the last, which \<open>rolled_difference\<close> shows in the last place of the shifted
  difference, is not among them.
\<close>

theorem integrate_adjacent_bins:
  assumes "2 \<le> length limits"
  shows "fst (integrate norm_cdf self limits) =
     map (\<lambda>i. (norm_cdf (limits ! (i + 1)) (mean self) (stddev self) -
                 norm_cdf (limits ! i) (mean self) (stddev self)) *
                (amplitude self * stddev self * sqrt (2 * pi)))
       [0..<length limits - 1] \<and>
     length (fst (integrate norm_cdf self limits)) = length limits - 1"
  by (simp add: integrate_eq flux_def mult.assoc)

text \<open>The theorem at the limits 0, 1, 3, with a CDF that is linear in the limit.\<close>

theorem integrate_adjacent_bins_witness:
  "fst (integrate (\<lambda>x loc scale. (x - loc) / scale) \<lparr>amplitude = 1, mean = 0, stddev = 1\<rparr> [0, 1, 3]) =
     [1 * sqrt (2 * pi), 2 * sqrt (2 * pi)]"
  using integrate_adjacent_bins [of "[0, 1, 3]" "\<lambda>x loc scale. (x - loc) / scale"
      "\<lparr>amplitude = 1, mean = 0, stddev = 1\<rparr>"]
  by (simp add: upt_rec)

text \<open>
  Claim C4. On \<open>n\<close> limits \<^verbatim>\<open>integrate\<close> returns \<open>n - 1\<close> values when \<open>n \<ge> 2\<close> and
  none when \<open>n\<close> is 0 or 1; it never returns as many values as there are limits, so
  there is no \<open>n\<close>-th value.
\<close>

theorem integrate_length:
  "(2 \<le> length limits \<longrightarrow> length (fst (integrate norm_cdf self limits)) = length limits - 1) \<and>
   (length limits \<le> 1 \<longrightarrow> fst (integrate norm_cdf self limits) = []) \<and>
   (limits \<noteq> [] \<longrightarrow> length (fst (integrate norm_cdf self limits)) < length limits)"
  by (cases limits) (simp_all add: integrate_eq)

text \<open>The theorem at three limits, one limit and no limit.\<close>

theorem integrate_length_witness:
  "length (fst (integrate (\<lambda>x loc scale. (x - loc) / scale) \<lparr>amplitude = 1, mean = 0, stddev = 1\<rparr> [0, 1, 3])) = 2 \<and>
   fst (integrate (\<lambda>x loc scale. (x - loc) / scale) \<lparr>amplitude = 1, mean = 0, stddev = 1\<rparr> [5]) = [] \<and>
   fst (integrate (\<lambda>x loc scale. (x - loc) / scale) \<lparr>amplitude = 1, mean = 0, stddev = 1\<rparr> []) = []"
  using integrate_length [of "[0, 1, 3]" "\<lambda>x loc scale. (x - loc) / scale" "\<lparr>amplitude = 1, mean = 0, stddev = 1\<rparr>"]
    integrate_length [of "[5]" "\<lambda>x loc scale. (x - loc) / scale" "\<lparr>amplitude = 1, mean = 0, stddev = 1\<rparr>"]
    integrate_length [of "[]" "\<lambda>x loc scale. (x - loc) / scale" "\<lparr>amplitude = 1, mean = 0, stddev = 1\<rparr>"]
  by simp

text \<open>
  Claim C9. \<^verbatim>\<open>integrate\<close> leaves the object as it was: amplitude, mean and stddev
  after the call are those before it.
\<close>

theorem integrate_frame:
  "snd (integrate norm_cdf self limits) = self \<and>
   amplitude (snd (integrate norm_cdf self limits)) = amplitude self \<and>
   mean (snd (integrate norm_cdf self limits)) = mean self \<and>
   stddev (snd (integrate norm_cdf self limits)) = stddev self"
  by (simp add: integrate_def Let_def)

end
